theory Spec2Isabelle
  imports Complex_Main
begin

section \<open>The scroll-video synchronizer (RECATI/script.js)\<close>

text \<open>
  JavaScript numbers are modelled as the real numbers they denote; rounding of IEEE
  doubles is outside the model. The one place where the source guards against a
  non-finite value, the division in \<open>getPageProgress\<close>, is modelled with an explicit
  result type that has \<open>NaN\<close> and the infinities.
\<close>

subsection \<open>Constants\<close>

definition FREEZE_TIME :: real where "FREEZE_TIME = 7.0"
definition SCROLL_SLOP :: real where "SCROLL_SLOP = 0.02"
definition SEEK_FPS :: real where "SEEK_FPS = 72"
definition SMOOTH_RESPONSE :: real where "SMOOTH_RESPONSE = 11"
definition MIN_TIME_STEP :: real where "MIN_TIME_STEP = 1 / 45"

subsection \<open>Numbers that may be non-finite\<close>

datatype jsnum = JNum real | NaN | PosInfinity | NegInfinity

definition js_div :: "real \<Rightarrow> real \<Rightarrow> jsnum" where
  \<comment> \<open>the operator \<open>/\<close> on finite operands (signed zeros not distinguished)\<close>
  "js_div a b =
     (if b = 0 then (if a = 0 then NaN else if 0 < a then PosInfinity else NegInfinity)
      else JNum (a / b))"

definition clamp :: "real \<Rightarrow> real \<Rightarrow> real \<Rightarrow> real" where
  "clamp n a b = max a (min b n)"

subsection \<open>The environment read by the handlers\<close>

text \<open>
  What a handler reads from the browser while it runs: the scroll geometry, the viewport,
  the media element's observable properties, the query parameter and the clock. Each
  handler invocation gets its own snapshot, so the media engine and the user are free to
  change anything between two invocations.
\<close>

record env =
  rect_top :: real                 \<comment> \<open>\<open>intro.getBoundingClientRect().top\<close>\<close>
  offsetHeight :: real             \<comment> \<open>\<open>intro.offsetHeight\<close>\<close>
  innerHeight :: real              \<comment> \<open>\<open>window.innerHeight\<close>\<close>
  innerWidth :: real               \<comment> \<open>\<open>window.innerWidth\<close>\<close>
  devicePixelRatio :: real         \<comment> \<open>\<open>window.devicePixelRatio\<close>, 0 when falsy\<close>
  video_duration :: "real option"  \<comment> \<open>\<open>video.duration\<close>, \<open>None\<close> when not finite\<close>
  video_currentTime :: real        \<comment> \<open>\<open>video.currentTime\<close> as read\<close>
  videoWidth :: nat
  videoHeight :: nat
  readyState :: nat
  skipIntro :: bool                \<comment> \<open>query parameter \<open>skipIntro\<close> equals "1"\<close>
  performance_now :: real          \<comment> \<open>\<open>performance.now()\<close>\<close>
  rvfc_available :: bool           \<comment> \<open>\<open>video.requestVideoFrameCallback\<close> is a function\<close>

subsection \<open>Module state and observable effects\<close>

datatype effect =
    LoadMedia                \<comment> \<open>\<open>video.load()\<close>\<close>
  | SeekWrite real real      \<comment> \<open>\<open>video.currentTime = nextTime\<close>, issued at \<open>nowMs\<close>\<close>
  | Redraw                   \<comment> \<open>\<open>drawFrame\<close> got past its guards and painted\<close>

record sync =
  vw :: real
  vh :: real
  canvas_width :: int
  canvas_height :: int
  initialized :: bool
  targetTime :: real
  smoothTime :: real
  rafPending :: bool         \<comment> \<open>\<open>rafId\<close> names a pending animation-frame request\<close>
  lastTick :: real
  lastSeekAt :: real
  lastRequestedTime :: real
  hasRVFC :: bool
  siteReady :: bool          \<comment> \<open>class \<open>site-ready\<close> on the document body\<close>
  loadedListener :: bool     \<comment> \<open>the once-only \<open>loadeddata\<close> listener is still attached\<close>
  initAwaiting :: bool       \<comment> \<open>\<open>init\<close> is suspended at \<open>await video.play()\<close>\<close>
  effects :: "effect list"

definition setReadyState :: "bool \<Rightarrow> sync \<Rightarrow> sync" where
  "setReadyState isReady s = s\<lparr>siteReady := isReady\<rparr>"

definition getPageProgress :: "env \<Rightarrow> jsnum" where
  "getPageProgress e =
     (let total = offsetHeight e - innerHeight e;
          scrolled = clamp (- rect_top e) 0 total
      in if 0 < total then js_div scrolled total else JNum 0)"

definition drawFrame :: "env \<Rightarrow> sync \<Rightarrow> sync" where
  \<comment> \<open>only whether the frame is painted is modelled, not the pixels\<close>
  "drawFrame e s =
     (if videoWidth e = 0 \<or> videoHeight e = 0 then s
      else if readyState e < 2 then s
      else s\<lparr>effects := effects s @ [Redraw]\<rparr>)"

definition resizeCanvas :: "env \<Rightarrow> sync \<Rightarrow> sync" where
  \<comment> \<open>the drawing transform set by \<open>ctx.setTransform\<close> is not part of the state; the
      floor is of the exact product, where the source floors the rounded double\<close>
  "resizeCanvas e s =
     (let dpr = min (if devicePixelRatio e = 0 then 1 else devicePixelRatio e) 2
      in drawFrame e
           (s\<lparr>vw := innerWidth e, vh := innerHeight e,
              canvas_width := \<lfloor>innerWidth e * dpr\<rfloor>,
              canvas_height := \<lfloor>innerHeight e * dpr\<rfloor>\<rparr>))"

definition nextTime :: "env \<Rightarrow> real \<Rightarrow> real" where
  \<comment> \<open>the local \<open>nextTime\<close> of \<open>seekToTime\<close>\<close>
  "nextTime e time =
     (let safeDuration = (case video_duration e of Some d \<Rightarrow> d | None \<Rightarrow> FREEZE_TIME)
      in clamp time 0 (min FREEZE_TIME safeDuration))"

definition minSeekInterval :: real where
  "minSeekInterval = 1000 / SEEK_FPS"

definition seekToTime :: "env \<Rightarrow> real \<Rightarrow> real \<Rightarrow> sync \<Rightarrow> sync" where
  "seekToTime e time nowMs s =
     (if \<not> initialized s then s
      else if nowMs - lastSeekAt s < minSeekInterval then s
      else if \<bar>lastRequestedTime s - nextTime e time\<bar> \<le> MIN_TIME_STEP * 0.5 then s
      else if \<bar>video_currentTime e - nextTime e time\<bar> \<le> MIN_TIME_STEP * 0.5 then s
      else s\<lparr>lastSeekAt := nowMs, lastRequestedTime := nextTime e time,
             effects := effects s @ [SeekWrite nowMs (nextTime e time)]\<rparr>)"

definition updateTargetFromScroll :: "env \<Rightarrow> sync \<Rightarrow> sync" where
  \<comment> \<open>a non-finite progress would make the target \<open>NaN\<close> or a bound; \<open>getPageProgress\<close>
      never returns one (lemma \<open>getPageProgress_finite\<close>), the branch is there for totality\<close>
  "updateTargetFromScroll e s =
     (case getPageProgress e of
        JNum p \<Rightarrow> s\<lparr>targetTime := clamp (p * FREEZE_TIME) 0 FREEZE_TIME\<rparr>
      | _ \<Rightarrow> s)"

definition frame_dt :: "real \<Rightarrow> sync \<Rightarrow> real" where
  \<comment> \<open>the local \<open>dt\<close> of \<open>loop\<close>\<close>
  "frame_dt nowMs s =
     (if lastTick s \<noteq> 0 then min ((nowMs - lastTick s) / 1000) 0.1 else 1 / 60)"

definition loop :: "env \<Rightarrow> real \<Rightarrow> sync \<Rightarrow> sync" where
  \<comment> \<open>the update of \<open>smoothTime\<close> and the comparison for the ready flag are over exact
      reals; the source's doubles round each operation\<close>
  "loop e nowMs s =
     (let s5 =
        (if initialized s then
           (let s1 = updateTargetFromScroll e s;
                dt = frame_dt nowMs s1;
                s2 = s1\<lparr>lastTick := nowMs\<rparr>;
                alpha = 1 - exp (- SMOOTH_RESPONSE * dt);
                s3 = s2\<lparr>smoothTime := smoothTime s2 + (targetTime s2 - smoothTime s2) * alpha\<rparr>;
                s4 = setReadyState (FREEZE_TIME - SCROLL_SLOP \<le> smoothTime s3) s3
            in drawFrame e (seekToTime e (smoothTime s4) nowMs s4))
         else s)
      in s5\<lparr>rafPending := True\<rparr>)"

definition setupVideoFrameCallback :: "env \<Rightarrow> sync \<Rightarrow> sync" where
  "setupVideoFrameCallback e s =
     (if \<not> rvfc_available e \<or> hasRVFC s then s else s\<lparr>hasRVFC := True\<rparr>)"

definition init_begin :: "env \<Rightarrow> sync \<Rightarrow> sync" where
  \<comment> \<open>\<open>init\<close> up to \<open>await video.play()\<close>\<close>
  "init_begin e s =
     (if skipIntro e then (setReadyState True s)\<lparr>initialized := True\<rparr>
      else (resizeCanvas e s)\<lparr>initAwaiting := True\<rparr>)"

definition init_resume :: "env \<Rightarrow> sync \<Rightarrow> sync" where
  \<comment> \<open>\<open>init\<close> after the autoplay probe has settled, whichever way\<close>
  "init_resume e s =
     (let s1 = updateTargetFromScroll e (s\<lparr>initAwaiting := False, initialized := True\<rparr>);
          s2 = s1\<lparr>smoothTime := targetTime s1\<rparr>;
          s3 = seekToTime e (smoothTime s2) (performance_now e) s2;
          s4 = s3\<lparr>lastTick := 0, rafPending := True\<rparr>
      in setupVideoFrameCallback e s4)"

subsection \<open>Events\<close>

datatype event =
    LoadedData        \<comment> \<open>the media element's \<open>loadeddata\<close>\<close>
  | PlaySettled       \<comment> \<open>the promise of \<open>video.play()\<close> resolved or rejected\<close>
  | Frame real        \<comment> \<open>an animation frame, with its timestamp\<close>
  | Resize
  | Seeked
  | TimeUpdate
  | VideoFrame        \<comment> \<open>the media engine presented a decoded frame\<close>

fun handle :: "env \<Rightarrow> event \<Rightarrow> sync \<Rightarrow> sync" where
  "handle e LoadedData s =
     (if loadedListener s then init_begin e (s\<lparr>loadedListener := False\<rparr>) else s)"
| "handle e PlaySettled s = (if initAwaiting s then init_resume e s else s)"
| "handle e (Frame nowMs) s = (if rafPending s then loop e nowMs s else s)"
| "handle e Resize s = updateTargetFromScroll e (resizeCanvas e s)"
| "handle e Seeked s = drawFrame e s"
| "handle e TimeUpdate s = drawFrame e s"
| "handle e VideoFrame s = (if hasRVFC s then drawFrame e s else s)"

definition boot :: sync where
  \<comment> \<open>the state once the script has run: the declarations of lines 21 to 30, the
      listeners attached and \<open>video.load()\<close> called\<close>
  "boot = \<lparr>vw = 0, vh = 0, canvas_width = 0, canvas_height = 0, initialized = False,
           targetTime = 0, smoothTime = 0, rafPending = False, lastTick = 0,
           lastSeekAt = 0, lastRequestedTime = - 1, hasRVFC = False, siteReady = False,
           loadedListener = True, initAwaiting = False, effects = [LoadMedia]\<rparr>"

fun run :: "(env \<times> event) list \<Rightarrow> sync \<Rightarrow> sync" where
  "run [] s = s"
| "run ((e, ev) # evs) s = run evs (handle e ev s)"

fun frames_in_order :: "(env \<times> event) list \<Rightarrow> sync \<Rightarrow> bool" where
  \<comment> \<open>the scheduler hands each frame a timestamp not before the previous frame's\<close>
  "frames_in_order [] s = True"
| "frames_in_order ((e, ev) # evs) s =
     ((case ev of Frame nowMs \<Rightarrow> lastTick s \<le> nowMs | _ \<Rightarrow> True)
      \<and> frames_in_order evs (handle e ev s))"

fun run_seeks :: "(env \<times> real \<times> real) list \<Rightarrow> sync \<Rightarrow> sync" where
  \<comment> \<open>a sequence of calls \<open>seekToTime(time, nowMs)\<close>\<close>
  "run_seeks [] s = s"
| "run_seeks ((e, time, nowMs) # cs) s = run_seeks cs (seekToTime e time nowMs s)"

fun seek_stamps :: "effect list \<Rightarrow> real list" where
  "seek_stamps [] = []"
| "seek_stamps (SeekWrite t v # xs) = t # seek_stamps xs"
| "seek_stamps (_ # xs) = seek_stamps xs"

fun spaced :: "real list \<Rightarrow> bool" where
  \<comment> \<open>successive stamps are at least \<open>minSeekInterval\<close> apart\<close>
  "spaced (a # b # xs) = (minSeekInterval \<le> b - a \<and> spaced (b # xs))"
| "spaced _ = True"

section \<open>The moon widget (DAMI/static/js/app.js)\<close>

definition js_trunc :: "real \<Rightarrow> int" where
  "js_trunc x = (if x < 0 then \<lceil>x\<rceil> else \<lfloor>x\<rfloor>)"

definition js_rem :: "real \<Rightarrow> real \<Rightarrow> real" where
  \<comment> \<open>the operator \<open>%\<close> for a non-zero divisor: the remainder of truncating division\<close>
  "js_rem n d = n - d * of_int (js_trunc (n / d))"

definition synodicMonth :: real where "synodicMonth = 29.530588853"

definition knownNewMoon :: int where
  \<comment> \<open>\<open>Date.UTC(2024, 0, 11, 11, 57, 0)\<close> in milliseconds\<close>
  "knownNewMoon = 1704974220000"

record moon =
  phase :: real
  illumination :: real

definition moonPhase :: "int \<Rightarrow> moon" where
  \<comment> \<open>the argument is \<open>date.getTime()\<close>\<close>
  "moonPhase date =
     (let daysSince = (of_int date - of_int knownNewMoon) / 1000 / 60 / 60 / 24;
          ph = js_rem (js_rem daysSince synodicMonth + synodicMonth) synodicMonth
      in \<lparr>phase = ph, illumination = (1 - cos ((2 * pi * ph) / synodicMonth)) / 2\<rparr>)"

section \<open>Sample inputs\<close>

definition page_env :: "real \<Rightarrow> real \<Rightarrow> env" where
  \<comment> \<open>a 3000 pixel intro in a 1000 pixel viewport, scrolled by \<open>offset\<close>, the media
      decoded and positioned at \<open>pos\<close>\<close>
  "page_env offset pos =
     \<lparr>rect_top = - offset, offsetHeight = 3000, innerHeight = 1000, innerWidth = 1600,
      devicePixelRatio = 1, video_duration = Some 8, video_currentTime = pos,
      videoWidth = 1280, videoHeight = 720, readyState = 4, skipIntro = False,
      performance_now = 100, rvfc_available = False\<rparr>"

definition started :: "real \<Rightarrow> real \<Rightarrow> sync" where
  \<comment> \<open>the state once \<open>init\<close> has completed on that page\<close>
  "started offset pos =
     run [(page_env offset pos, LoadedData), (page_env offset pos, PlaySettled)] boot"

section \<open>Predicates on states\<close>

definition in_range :: "sync \<Rightarrow> bool" where
  \<comment> \<open>both times lie between 0 and the freeze time\<close>
  "in_range s \<longleftrightarrow> 0 \<le> smoothTime s \<and> smoothTime s \<le> FREEZE_TIME
                 \<and> 0 \<le> targetTime s \<and> targetTime s \<le> FREEZE_TIME"

definition seek_log_ok :: "sync \<Rightarrow> bool" where
  \<comment> \<open>the position writes so far are spaced, and \<open>lastSeekAt\<close> is the stamp of the last one\<close>
  "seek_log_ok s \<longleftrightarrow> spaced (seek_stamps (effects s))
     \<and> (seek_stamps (effects s) \<noteq> [] \<longrightarrow> last (seek_stamps (effects s)) = lastSeekAt s)"

definition no_seek :: "sync \<Rightarrow> bool" where
  "no_seek s \<longleftrightarrow> (\<forall>t v. SeekWrite t v \<notin> set (effects s))"

definition before_load :: "sync \<Rightarrow> bool" where
  \<comment> \<open>\<open>loadeddata\<close> has not fired yet\<close>
  "before_load s \<longleftrightarrow> loadedListener s \<and> \<not> initAwaiting s \<and> \<not> rafPending s
     \<and> no_seek s \<and> LoadMedia \<in> set (effects s)"

definition skipped :: "sync \<Rightarrow> bool" where
  \<comment> \<open>\<open>init\<close> has returned through its skip-intro branch\<close>
  "skipped s \<longleftrightarrow> siteReady s \<and> initialized s \<and> \<not> loadedListener s \<and> \<not> initAwaiting s
     \<and> \<not> rafPending s \<and> no_seek s \<and> LoadMedia \<in> set (effects s)"

section \<open>Auxiliary facts\<close>

subsection \<open>Which fields each routine touches\<close>

lemma getPageProgress_value:
  "getPageProgress e =
     JNum (if 0 < offsetHeight e - innerHeight e
           then max 0 (min (offsetHeight e - innerHeight e) (- rect_top e))
                / (offsetHeight e - innerHeight e)
           else 0)"
  by (simp add: getPageProgress_def js_div_def clamp_def Let_def)

lemma getPageProgress_finite:
  "\<exists>p. getPageProgress e = JNum p \<and> 0 \<le> p \<and> p \<le> 1"
  by (simp add: getPageProgress_value)

lemma drawFrame_fields [simp]:
  "smoothTime (drawFrame e s) = smoothTime s"
  "targetTime (drawFrame e s) = targetTime s"
  "lastTick (drawFrame e s) = lastTick s"
  "lastSeekAt (drawFrame e s) = lastSeekAt s"
  "lastRequestedTime (drawFrame e s) = lastRequestedTime s"
  "initialized (drawFrame e s) = initialized s"
  "rafPending (drawFrame e s) = rafPending s"
  "siteReady (drawFrame e s) = siteReady s"
  "loadedListener (drawFrame e s) = loadedListener s"
  "initAwaiting (drawFrame e s) = initAwaiting s"
  "hasRVFC (drawFrame e s) = hasRVFC s"
  by (simp_all add: drawFrame_def)

lemma seekToTime_fields [simp]:
  "smoothTime (seekToTime e t n s) = smoothTime s"
  "targetTime (seekToTime e t n s) = targetTime s"
  "lastTick (seekToTime e t n s) = lastTick s"
  "initialized (seekToTime e t n s) = initialized s"
  "rafPending (seekToTime e t n s) = rafPending s"
  "siteReady (seekToTime e t n s) = siteReady s"
  "loadedListener (seekToTime e t n s) = loadedListener s"
  "initAwaiting (seekToTime e t n s) = initAwaiting s"
  "hasRVFC (seekToTime e t n s) = hasRVFC s"
  by (simp_all add: seekToTime_def)

lemma updateTargetFromScroll_eq:
  "updateTargetFromScroll e s =
     s\<lparr>targetTime :=
         clamp ((if 0 < offsetHeight e - innerHeight e
                 then max 0 (min (offsetHeight e - innerHeight e) (- rect_top e))
                      / (offsetHeight e - innerHeight e)
                 else 0) * FREEZE_TIME) 0 FREEZE_TIME\<rparr>"
  by (simp add: updateTargetFromScroll_def getPageProgress_value)

lemma updateTargetFromScroll_fields [simp]:
  "smoothTime (updateTargetFromScroll e s) = smoothTime s"
  "lastTick (updateTargetFromScroll e s) = lastTick s"
  "lastSeekAt (updateTargetFromScroll e s) = lastSeekAt s"
  "lastRequestedTime (updateTargetFromScroll e s) = lastRequestedTime s"
  "initialized (updateTargetFromScroll e s) = initialized s"
  "rafPending (updateTargetFromScroll e s) = rafPending s"
  "siteReady (updateTargetFromScroll e s) = siteReady s"
  "loadedListener (updateTargetFromScroll e s) = loadedListener s"
  "initAwaiting (updateTargetFromScroll e s) = initAwaiting s"
  "hasRVFC (updateTargetFromScroll e s) = hasRVFC s"
  "effects (updateTargetFromScroll e s) = effects s"
  by (simp_all add: updateTargetFromScroll_eq)

lemma updateTargetFromScroll_range:
  "0 \<le> targetTime (updateTargetFromScroll e s)
   \<and> targetTime (updateTargetFromScroll e s) \<le> FREEZE_TIME"
  by (simp add: updateTargetFromScroll_eq clamp_def FREEZE_TIME_def)

lemma resizeCanvas_fields [simp]:
  "smoothTime (resizeCanvas e s) = smoothTime s"
  "targetTime (resizeCanvas e s) = targetTime s"
  "lastTick (resizeCanvas e s) = lastTick s"
  "lastSeekAt (resizeCanvas e s) = lastSeekAt s"
  "lastRequestedTime (resizeCanvas e s) = lastRequestedTime s"
  "initialized (resizeCanvas e s) = initialized s"
  "rafPending (resizeCanvas e s) = rafPending s"
  "siteReady (resizeCanvas e s) = siteReady s"
  "loadedListener (resizeCanvas e s) = loadedListener s"
  "initAwaiting (resizeCanvas e s) = initAwaiting s"
  "hasRVFC (resizeCanvas e s) = hasRVFC s"
  by (simp_all add: resizeCanvas_def Let_def)

lemma frame_dt_update [simp]:
  "frame_dt n (updateTargetFromScroll e s) = frame_dt n s"
  by (simp add: frame_dt_def)

lemma loop_targetTime:
  "initialized s \<Longrightarrow> targetTime (loop e nowMs s) = targetTime (updateTargetFromScroll e s)"
  by (simp add: loop_def Let_def setReadyState_def)

lemma loop_smoothTime:
  "initialized s \<Longrightarrow>
   smoothTime (loop e nowMs s) =
     smoothTime s + (targetTime (updateTargetFromScroll e s) - smoothTime s)
                    * (1 - exp (- SMOOTH_RESPONSE * frame_dt nowMs s))"
  by (simp add: loop_def Let_def setReadyState_def)

lemma loop_uninitialized:
  "\<not> initialized s \<Longrightarrow> loop e nowMs s = s\<lparr>rafPending := True\<rparr>"
  by (simp add: loop_def)

subsection \<open>The smoothing step as an interpolation\<close>

lemma smoothing_gap:
  fixes x t a :: real
  shows "(x + (t - x) * (1 - a)) - t = (x - t) * a"
  by (simp add: algebra_simps)

lemma decay_pos:
  "0 < dt \<Longrightarrow> 0 < exp (- SMOOTH_RESPONSE * dt) \<and> exp (- SMOOTH_RESPONSE * dt) < 1"
  by (simp add: SMOOTH_RESPONSE_def)

lemma decay_nonneg:
  "0 \<le> dt \<Longrightarrow> 0 < exp (- SMOOTH_RESPONSE * dt) \<and> exp (- SMOOTH_RESPONSE * dt) \<le> 1"
  by (simp add: SMOOTH_RESPONSE_def)

lemma convex_step:
  fixes x t a :: real
  assumes "0 < a" "a \<le> 1"
  shows "min x t \<le> x + (t - x) * (1 - a) \<and> x + (t - x) * (1 - a) \<le> max x t"
proof -
  have e: "x + (t - x) * (1 - a) = a * x + (1 - a) * t" by (simp add: algebra_simps)
  have "a * min x t \<le> a * x" "(1 - a) * min x t \<le> (1 - a) * t"
    using assms by (simp_all add: mult_left_mono)
  then have lo: "min x t \<le> a * x + (1 - a) * t" by (simp add: algebra_simps)
  have "a * x \<le> a * max x t" "(1 - a) * t \<le> (1 - a) * max x t"
    using assms by (simp_all add: mult_left_mono)
  then have hi: "a * x + (1 - a) * t \<le> max x t" by (simp add: algebra_simps)
  show ?thesis using lo hi unfolding e by simp
qed

subsection \<open>Bounds on the exponential\<close>

lemma exp_upper_cubic:
  fixes x :: real
  assumes "x \<le> 0"
  shows "exp x \<le> 1 + x + x\<^sup>2 / 2"
proof -
  obtain t where t: "exp x = (\<Sum>m<3. x ^ m / fact m) + (exp t / fact 3) * x ^ 3"
    using Maclaurin_exp_le [of x 3] by blast
  have "x ^ 3 \<le> 0"
    using assms by (simp add: power3_eq_cube mult_nonneg_nonpos2 zero_le_mult_iff mult_le_0_iff)
  moreover have "0 \<le> exp t / fact 3" by simp
  ultimately have "(exp t / fact 3) * x ^ 3 \<le> 0"
    by (simp only: mult_nonneg_nonpos)
  moreover have "(\<Sum>m<3. x ^ m / fact m) = 1 + x + x\<^sup>2 / 2"
    by (simp add: numeral_3_eq_3 power2_eq_square)
  ultimately show ?thesis using t by simp
qed

lemma exp_lower_quartic:
  fixes x :: real
  shows "1 + x + x\<^sup>2 / 2 + x ^ 3 / 6 \<le> exp x"
proof -
  obtain t where t: "exp x = (\<Sum>m<4. x ^ m / fact m) + (exp t / fact 4) * x ^ 4"
    using Maclaurin_exp_le [of x 4] by blast
  have "0 \<le> x ^ 4" by simp
  moreover have "0 \<le> exp t / fact 4" by simp
  ultimately have "0 \<le> (exp t / fact 4) * x ^ 4"
    by (simp only: mult_nonneg_nonneg)
  moreover have "(\<Sum>m<4. x ^ m / fact m) = 1 + x + x\<^sup>2 / 2 + x ^ 3 / 6"
    by (simp add: eval_nat_numeral lessThan_Suc)
  ultimately show ?thesis using t by simp
qed

lemma decay_60_bounds:
  "(8324 / 10000 :: real) < exp (- 11 / 60) \<and> exp (- 11 / 60) < (8335 / 10000 :: real)"
proof -
  have "exp (- 11 / 60 :: real) \<le> 1 + (- 11 / 60) + (- 11 / 60)\<^sup>2 / 2"
    by (rule exp_upper_cubic) simp
  moreover have
    "1 + (- 11 / 60) + (- 11 / 60)\<^sup>2 / 2 + (- 11 / 60) ^ 3 / 6 \<le> exp (- 11 / 60 :: real)"
    by (rule exp_lower_quartic)
  ultimately show ?thesis by (simp add: power2_eq_square power3_eq_cube)
qed

subsection \<open>The remainder operator\<close>

lemma js_rem_lower:
  assumes "0 < d"
  shows "- d < js_rem n d"
proof (cases "n / d < 0")
  case True
  have "of_int \<lceil>n / d\<rceil> < n / d + 1" by linarith
  then have "d * of_int \<lceil>n / d\<rceil> < d * (n / d + 1)"
    using assms by (simp only: mult_less_cancel_left_pos)
  also have "\<dots> = n + d" using assms by (simp add: algebra_simps)
  finally show ?thesis using True by (simp add: js_rem_def js_trunc_def)
next
  case False
  have "of_int \<lfloor>n / d\<rfloor> \<le> n / d" by linarith
  then have "d * of_int \<lfloor>n / d\<rfloor> \<le> d * (n / d)"
    using assms by (simp only: mult_le_cancel_left_pos)
  also have "\<dots> = n" using assms by simp
  finally show ?thesis using False assms by (simp add: js_rem_def js_trunc_def)
qed

lemma js_rem_range:
  assumes "0 < d" "0 \<le> n"
  shows "0 \<le> js_rem n d \<and> js_rem n d < d"
proof -
  have q: "\<not> n / d < 0" using assms by (simp add: not_less)
  have "of_int \<lfloor>n / d\<rfloor> \<le> n / d" by linarith
  then have "d * of_int \<lfloor>n / d\<rfloor> \<le> d * (n / d)"
    using assms by (simp only: mult_le_cancel_left_pos)
  also have "\<dots> = n" using assms by simp
  finally have lo: "d * of_int \<lfloor>n / d\<rfloor> \<le> n" .
  have "n / d < of_int \<lfloor>n / d\<rfloor> + 1" by linarith
  then have "d * (n / d) < d * (of_int \<lfloor>n / d\<rfloor> + 1)"
    using assms by (simp only: mult_less_cancel_left_pos)
  moreover have "d * (n / d) = n" using assms by simp
  ultimately have hi: "n < d * of_int \<lfloor>n / d\<rfloor> + d" by (simp add: algebra_simps)
  show ?thesis using lo hi q by (simp add: js_rem_def js_trunc_def)
qed

lemma synodicMonth_pos: "0 < synodicMonth"
  by (simp add: synodicMonth_def)

subsection \<open>The sample states, evaluated\<close>

lemmas run_defs =
  started_def page_env_def boot_def init_begin_def init_resume_def resizeCanvas_def
  drawFrame_def setupVideoFrameCallback_def setReadyState_def updateTargetFromScroll_eq
  seekToTime_def nextTime_def clamp_def minSeekInterval_def frame_dt_def
  FREEZE_TIME_def SEEK_FPS_def MIN_TIME_STEP_def SCROLL_SLOP_def SMOOTH_RESPONSE_def Let_def

lemma started_rest:
  "started 0 0 =
     \<lparr>vw = 1600, vh = 1000, canvas_width = 1600, canvas_height = 1000, initialized = True,
      targetTime = 0, smoothTime = 0, rafPending = True, lastTick = 0, lastSeekAt = 0,
      lastRequestedTime = - 1, hasRVFC = False, siteReady = False, loadedListener = False,
      initAwaiting = False, effects = [LoadMedia, Redraw]\<rparr>"
  by (simp add: run_defs)

lemma started_seeked:
  "started 0 3 =
     \<lparr>vw = 1600, vh = 1000, canvas_width = 1600, canvas_height = 1000, initialized = True,
      targetTime = 0, smoothTime = 0, rafPending = True, lastTick = 0, lastSeekAt = 100,
      lastRequestedTime = 0, hasRVFC = False, siteReady = False, loadedListener = False,
      initAwaiting = False, effects = [LoadMedia, Redraw, SeekWrite 100 0]\<rparr>"
  by (simp add: run_defs)

subsection \<open>The bounds on the two times are kept\<close>

lemma frame_dt_nonneg: "lastTick s \<le> nowMs \<Longrightarrow> 0 \<le> frame_dt nowMs s"
  by (simp add: frame_dt_def)

lemma init_begin_times [simp]:
  "smoothTime (init_begin e s) = smoothTime s"
  "targetTime (init_begin e s) = targetTime s"
  by (simp_all add: init_begin_def setReadyState_def)

lemma init_resume_times:
  "targetTime (init_resume e s) = targetTime (updateTargetFromScroll e s)"
  "smoothTime (init_resume e s) = targetTime (updateTargetFromScroll e s)"
  by (simp_all add: init_resume_def Let_def setupVideoFrameCallback_def updateTargetFromScroll_eq)

lemma loop_in_range:
  assumes "in_range s" and "lastTick s \<le> nowMs"
  shows "in_range (loop e nowMs s)"
proof (cases "initialized s")
  case False
  then show ?thesis using assms(1) by (simp add: loop_uninitialized in_range_def)
next
  case True
  define t where "t = targetTime (updateTargetFromScroll e s)"
  define a where "a = exp (- SMOOTH_RESPONSE * frame_dt nowMs s)"
  have a: "0 < a" "a \<le> 1"
    using decay_nonneg [OF frame_dt_nonneg [OF assms(2)]] by (simp_all add: a_def)
  have t: "0 \<le> t" "t \<le> FREEZE_TIME"
    using updateTargetFromScroll_range [of e s] by (simp_all add: t_def)
  have T: "targetTime (loop e nowMs s) = t"
    using True by (simp add: loop_targetTime t_def)
  have S: "smoothTime (loop e nowMs s) = smoothTime s + (t - smoothTime s) * (1 - a)"
    using True by (simp add: loop_smoothTime t_def a_def)
  have "min (smoothTime s) t \<le> smoothTime (loop e nowMs s)"
    and "smoothTime (loop e nowMs s) \<le> max (smoothTime s) t"
    unfolding S using convex_step [OF a] by simp_all
  then show ?thesis using assms(1) t T unfolding in_range_def by linarith
qed

lemma handle_in_range:
  assumes "in_range s" and "case ev of Frame nowMs \<Rightarrow> lastTick s \<le> nowMs | _ \<Rightarrow> True"
  shows "in_range (handle e ev s)"
proof (cases ev)
  case (Frame nowMs)
  then show ?thesis using assms by (simp add: loop_in_range)
next
  case PlaySettled
  then show ?thesis
    using assms(1) updateTargetFromScroll_range [of e s]
    by (simp add: in_range_def init_resume_times)
next
  case Resize
  then show ?thesis
    using assms(1) updateTargetFromScroll_range [of e "resizeCanvas e s"]
    by (simp add: in_range_def)
qed (use assms(1) in \<open>simp_all add: in_range_def\<close>)

lemma run_in_range:
  "in_range s \<Longrightarrow> frames_in_order evs s \<Longrightarrow> in_range (run evs s)"
proof (induction evs arbitrary: s)
  case Nil
  then show ?case by simp
next
  case (Cons x evs)
  obtain e ev where x: "x = (e, ev)" by (cases x)
  have "in_range (handle e ev s)"
    using Cons.prems by (intro handle_in_range) (simp_all add: x)
  then show ?case using Cons.IH [of "handle e ev s"] Cons.prems(2) by (simp add: x)
qed

lemma boot_in_range: "in_range boot"
  by (simp add: in_range_def boot_def FREEZE_TIME_def)

lemma loop_lastTick: "initialized s \<Longrightarrow> lastTick (loop e nowMs s) = nowMs"
  by (simp add: loop_def Let_def setReadyState_def)

lemma loop_flags [simp]:
  "initialized (loop e nowMs s) = initialized s"
  "rafPending (loop e nowMs s)"
  by (simp_all add: loop_def Let_def setReadyState_def)

lemma started_unfold:
  "handle (page_env a b) PlaySettled (handle (page_env a b) LoadedData boot) = started a b"
  by (simp add: started_def)

subsection \<open>The log of position writes\<close>

lemma seek_stamps_append: "seek_stamps (xs @ ys) = seek_stamps xs @ seek_stamps ys"
  by (induction xs rule: seek_stamps.induct) simp_all

lemma spaced_snoc:
  "spaced (xs @ [t]) \<longleftrightarrow> spaced xs \<and> (xs \<noteq> [] \<longrightarrow> minSeekInterval \<le> t - last xs)"
  by (induction xs rule: spaced.induct) auto

lemma seek_log_ok_cong:
  "effects s' = effects s \<Longrightarrow> lastSeekAt s' = lastSeekAt s \<Longrightarrow> seek_log_ok s' = seek_log_ok s"
  by (simp add: seek_log_ok_def)

lemma drawFrame_seek_stamps [simp]:
  "seek_stamps (effects (drawFrame e s)) = seek_stamps (effects s)"
  by (simp add: drawFrame_def seek_stamps_append)

lemma resizeCanvas_seek_stamps [simp]:
  "seek_stamps (effects (resizeCanvas e s)) = seek_stamps (effects s)"
  by (simp add: resizeCanvas_def Let_def)

lemma drawFrame_log_ok [simp]: "seek_log_ok (drawFrame e s) = seek_log_ok s"
  by (simp add: seek_log_ok_def)

lemma resizeCanvas_log_ok [simp]: "seek_log_ok (resizeCanvas e s) = seek_log_ok s"
  by (simp add: seek_log_ok_def)

lemma updateTarget_log_ok [simp]: "seek_log_ok (updateTargetFromScroll e s) = seek_log_ok s"
  by (simp add: seek_log_ok_def)

lemma seekToTime_log_ok: "seek_log_ok s \<Longrightarrow> seek_log_ok (seekToTime e time nowMs s)"
  by (simp add: seekToTime_def seek_log_ok_def seek_stamps_append spaced_snoc)

lemma loop_log_ok: "seek_log_ok s \<Longrightarrow> seek_log_ok (loop e nowMs s)"
proof -
  assume a: "seek_log_ok s"
  have u: "\<And>s f. seek_log_ok (s\<lparr>rafPending := f\<rparr>) = seek_log_ok s"
    by (simp add: seek_log_ok_def)
  have v: "\<And>s x y r. seek_log_ok (setReadyState r (s\<lparr>lastTick := x, smoothTime := y\<rparr>)) = seek_log_ok s"
    by (simp add: seek_log_ok_def setReadyState_def)
  show ?thesis
    using a by (simp add: loop_def Let_def u v seekToTime_log_ok)
qed

lemma init_begin_log_ok: "seek_log_ok s \<Longrightarrow> seek_log_ok (init_begin e s)"
proof -
  assume a: "seek_log_ok s"
  have u: "\<And>s f. seek_log_ok (s\<lparr>initAwaiting := f\<rparr>) = seek_log_ok s"
    "\<And>s f. seek_log_ok (s\<lparr>initialized := f\<rparr>) = seek_log_ok s"
    "\<And>s f. seek_log_ok (setReadyState f s) = seek_log_ok s"
    by (simp_all add: seek_log_ok_def setReadyState_def)
  show ?thesis using a by (simp add: init_begin_def u)
qed

lemma init_resume_log_ok: "seek_log_ok s \<Longrightarrow> seek_log_ok (init_resume e s)"
proof -
  assume a: "seek_log_ok s"
  have u: "\<And>s f g. seek_log_ok (s\<lparr>lastTick := f, rafPending := g\<rparr>) = seek_log_ok s"
    "\<And>s f. seek_log_ok (s\<lparr>hasRVFC := f\<rparr>) = seek_log_ok s"
    "\<And>s f. seek_log_ok (s\<lparr>smoothTime := f\<rparr>) = seek_log_ok s"
    "\<And>s f g. seek_log_ok (s\<lparr>initAwaiting := f, initialized := g\<rparr>) = seek_log_ok s"
    by (simp_all add: seek_log_ok_def)
  show ?thesis
    using a by (simp add: init_resume_def Let_def setupVideoFrameCallback_def u seekToTime_log_ok)
qed

lemma handle_log_ok: "seek_log_ok s \<Longrightarrow> seek_log_ok (handle e ev s)"
proof (cases ev)
  case LoadedData
  assume a: "seek_log_ok s"
  have "seek_log_ok (s\<lparr>loadedListener := False\<rparr>)" using a by (simp add: seek_log_ok_def)
  then show ?thesis using a LoadedData by (simp add: init_begin_log_ok)
qed (simp_all add: loop_log_ok init_resume_log_ok)

lemma run_log_ok: "seek_log_ok s \<Longrightarrow> seek_log_ok (run evs s)"
  by (induction evs arbitrary: s) (auto simp add: handle_log_ok)

lemma boot_log_ok: "seek_log_ok boot"
  by (simp add: seek_log_ok_def boot_def)

lemma run_seeks_throttled:
  "\<forall>c \<in> set cs. snd (snd c) - lastSeekAt s < minSeekInterval \<Longrightarrow> run_seeks cs s = s"
  by (induction cs) (auto simp add: seekToTime_def)

subsection \<open>Before the media has loaded, and after a skipped intro\<close>

lemma run_append: "run (xs @ ys) s = run ys (run xs s)"
  by (induction xs arbitrary: s) auto

lemma drawFrame_no_seek [simp]: "no_seek (drawFrame e s) = no_seek s"
  by (auto simp add: no_seek_def drawFrame_def)

lemma drawFrame_loaded [simp]:
  "LoadMedia \<in> set (effects s) \<Longrightarrow> LoadMedia \<in> set (effects (drawFrame e s))"
  by (simp add: drawFrame_def)

lemma resizeCanvas_no_seek [simp]: "no_seek (resizeCanvas e s) = no_seek s"
  by (simp add: resizeCanvas_def Let_def) (simp add: no_seek_def)

lemma resizeCanvas_loaded [simp]:
  "LoadMedia \<in> set (effects s) \<Longrightarrow> LoadMedia \<in> set (effects (resizeCanvas e s))"
  by (simp add: resizeCanvas_def Let_def)

lemma updateTarget_no_seek [simp]: "no_seek (updateTargetFromScroll e s) = no_seek s"
  by (simp add: no_seek_def)

lemma before_load_step:
  "before_load s \<Longrightarrow> ev \<noteq> LoadedData \<Longrightarrow> before_load (handle e ev s)"
  by (cases ev) (simp_all add: before_load_def)

lemma before_load_run:
  "before_load s \<Longrightarrow> \<forall>x \<in> set evs. snd x \<noteq> LoadedData \<Longrightarrow> before_load (run evs s)"
  by (induction evs arbitrary: s) (auto simp add: before_load_step)

lemma skip_init:
  "before_load s \<Longrightarrow> skipIntro e \<Longrightarrow> skipped (handle e LoadedData s)"
  by (simp add: before_load_def skipped_def init_begin_def setReadyState_def no_seek_def)

lemma skipped_step: "skipped s \<Longrightarrow> skipped (handle e ev s)"
  by (cases ev) (simp_all add: skipped_def)

lemma skipped_run: "skipped s \<Longrightarrow> skipped (run evs s)"
  by (induction evs arbitrary: s) (auto simp add: skipped_step)

lemma boot_before_load: "before_load boot"
  by (simp add: before_load_def boot_def no_seek_def)

lemma first_step_value:
  assumes "initialized s" and "smoothTime s = 0" and "frame_dt nowMs s = 1 / 60"
    and "getPageProgress e = JNum 1"
  shows "targetTime (loop e nowMs s) = 7"
    and "smoothTime (loop e nowMs s) = 7 * (1 - exp (- 11 / 60))"
proof -
  have t: "targetTime (updateTargetFromScroll e s) = 7"
    using assms(4) by (simp add: updateTargetFromScroll_def clamp_def FREEZE_TIME_def)
  show "targetTime (loop e nowMs s) = 7"
    using assms(1) t by (simp add: loop_targetTime)
  show "smoothTime (loop e nowMs s) = 7 * (1 - exp (- 11 / 60))"
    using assms(1,2,3) t by (simp add: loop_smoothTime SMOOTH_RESPONSE_def)
qed

lemma page_end_progress: "getPageProgress (page_env 2000 pos) = JNum 1"
  by (simp add: getPageProgress_value page_env_def)

section \<open>The smoothing filter\<close>

text \<open>
  Claim C1, as amended. One step of \<open>loop\<close> on an initialized synchronizer with a positive
  time delta, measured against the target that this step computed, never increases the
  distance of the smoothed time to the target and never overshoots it: the new distance
  is at most the old one, and the new smoothed time lies between the old one and the
  target. (The decrease need not be strict: the distance stays 0 once the target is
  reached, and the rounding of doubles can leave the smoothed time standing just short of
  the target.)
\<close>

theorem loop_smoothing_contracts:
  assumes "initialized s" and "0 < frame_dt nowMs s"
  shows "\<bar>smoothTime (loop e nowMs s) - targetTime (loop e nowMs s)\<bar>
           \<le> \<bar>smoothTime s - targetTime (loop e nowMs s)\<bar>
       \<and> min (smoothTime s) (targetTime (loop e nowMs s)) \<le> smoothTime (loop e nowMs s)
       \<and> smoothTime (loop e nowMs s) \<le> max (smoothTime s) (targetTime (loop e nowMs s))"
proof -
  define t where "t = targetTime (updateTargetFromScroll e s)"
  define a where "a = exp (- SMOOTH_RESPONSE * frame_dt nowMs s)"
  have a: "0 < a" "a \<le> 1" using decay_pos [OF assms(2)] by (simp_all add: a_def)
  have T: "targetTime (loop e nowMs s) = t"
    using assms(1) by (simp add: loop_targetTime t_def)
  have S: "smoothTime (loop e nowMs s) = smoothTime s + (t - smoothTime s) * (1 - a)"
    using assms(1) by (simp add: loop_smoothTime t_def a_def)
  have gap: "\<bar>smoothTime (loop e nowMs s) - t\<bar> = \<bar>smoothTime s - t\<bar> * a"
    unfolding S smoothing_gap using a by (simp add: abs_mult)
  have "\<bar>smoothTime s - t\<bar> * a \<le> \<bar>smoothTime s - t\<bar> * 1"
    using a by (intro mult_left_mono) simp_all
  then have le: "\<bar>smoothTime (loop e nowMs s) - t\<bar> \<le> \<bar>smoothTime s - t\<bar>"
    using gap by simp
  have btw: "min (smoothTime s) t \<le> smoothTime s + (t - smoothTime s) * (1 - a)
       \<and> smoothTime s + (t - smoothTime s) * (1 - a) \<le> max (smoothTime s) t"
    using a by (intro convex_step) simp_all
  show ?thesis unfolding T using le btw by (simp add: S)
qed

text \<open>
  The first frame after start-up on a page that has just been scrolled to its end: the
  smoothed time is 0, the target becomes 7, and the smoothed time moves no further from
  the target and stays between 0 and 7.
\<close>

theorem loop_smoothing_contracts_witness:
  "initialized (started 0 0) \<and> 0 < frame_dt 16 (started 0 0)
   \<and> targetTime (loop (page_env 2000 0) 16 (started 0 0)) = 7
   \<and> \<bar>smoothTime (loop (page_env 2000 0) 16 (started 0 0)) - 7\<bar>
       \<le> \<bar>smoothTime (started 0 0) - 7\<bar>
   \<and> min (smoothTime (started 0 0)) 7 \<le> smoothTime (loop (page_env 2000 0) 16 (started 0 0))
   \<and> smoothTime (loop (page_env 2000 0) 16 (started 0 0)) \<le> max (smoothTime (started 0 0)) 7"
proof -
  have i: "initialized (started 0 0)" by (simp add: started_rest)
  have d: "0 < frame_dt 16 (started 0 0)" by (simp add: started_rest frame_dt_def)
  have t: "targetTime (loop (page_env 2000 0) 16 (started 0 0)) = 7"
    using first_step_value(1) [where s = "started 0 0" and nowMs = 16 and e = "page_env 2000 0"]
      page_end_progress
    by (simp add: started_rest frame_dt_def)
  show ?thesis
    using loop_smoothing_contracts [OF i d, where e = "page_env 2000 0"] i d
    unfolding t by (simp add: t)
qed

text \<open>
  The claim as stated fails where the smoothed time already equals the target, which is
  the state right after \<open>init\<close> on a page that is not being scrolled: the time delta is
  positive, the target is unchanged, and the distance stays 0 instead of decreasing.
\<close>

theorem loop_smoothing_strict_counterexample:
  "initialized (started 0 0) \<and> 0 < frame_dt 16 (started 0 0)
   \<and> targetTime (loop (page_env 0 0) 16 (started 0 0)) = targetTime (started 0 0)
   \<and> \<not> \<bar>smoothTime (loop (page_env 0 0) 16 (started 0 0))
          - targetTime (loop (page_env 0 0) 16 (started 0 0))\<bar>
         < \<bar>smoothTime (started 0 0) - targetTime (loop (page_env 0 0) 16 (started 0 0))\<bar>"
proof -
  have i: "initialized (started 0 0)" by (simp add: started_rest)
  have t: "targetTime (updateTargetFromScroll (page_env 0 0) (started 0 0)) = 0"
    by (simp add: updateTargetFromScroll_eq page_env_def clamp_def FREEZE_TIME_def)
  show ?thesis
    using t by (simp add: loop_targetTime [OF i] loop_smoothTime [OF i])
       (simp add: started_rest frame_dt_def)
qed

text \<open>
  Claim C2, as amended. From a smoothed time of 0, one step of \<open>loop\<close> with a time delta
  of 1/60 on a page whose progress is 1 (target time 7) leaves the smoothed time at
  \<open>7 * (1 - exp (- 11 / 60))\<close>, which is 1.17 to within 0.01.
\<close>

theorem loop_first_step_after_jump:
  assumes "initialized s" and "smoothTime s = 0" and "frame_dt nowMs s = 1 / 60"
    and "getPageProgress e = JNum 1"
  shows "targetTime (loop e nowMs s) = 7.0
       \<and> smoothTime (loop e nowMs s) = 7.0 * (1 - exp (- 11 / 60))
       \<and> \<bar>smoothTime (loop e nowMs s) - 1.17\<bar> < 0.01"
proof -
  define x :: real where "x = exp (- 11 / 60)"
  have b: "8324 / 10000 < x" "x < 8335 / 10000"
    using decay_60_bounds by (simp_all add: x_def)
  have v: "smoothTime (loop e nowMs s) = 7 * (1 - x)"
    using first_step_value(2) [OF assms] by (simp add: x_def)
  have "\<bar>7 * (1 - x) - 117 / 100\<bar> < 1 / 100"
    using b unfolding abs_less_iff by auto
  then show ?thesis
    using first_step_value(1) [OF assms] v by (simp add: x_def)
qed

theorem loop_first_step_after_jump_witness:
  "initialized (started 0 0) \<and> smoothTime (started 0 0) = 0
   \<and> frame_dt 16 (started 0 0) = 1 / 60 \<and> getPageProgress (page_env 2000 0) = JNum 1
   \<and> smoothTime (loop (page_env 2000 0) 16 (started 0 0)) = 7.0 * (1 - exp (- 11 / 60))
   \<and> \<bar>smoothTime (loop (page_env 2000 0) 16 (started 0 0)) - 1.17\<bar> < 0.01"
proof -
  have i: "initialized (started 0 0)" and z: "smoothTime (started 0 0) = 0"
    and d: "frame_dt 16 (started 0 0) = 1 / 60"
    by (simp_all add: started_rest frame_dt_def)
  show ?thesis
    using loop_first_step_after_jump [OF i z d page_end_progress [of 0]] i z d
      page_end_progress [of 0]
    by blast
qed

text \<open>
  The value the claim gives, 5.53, is more than 4 away from what the step computes.
\<close>

theorem loop_first_step_553_counterexample:
  "smoothTime (started 0 0) = 0 \<and> targetTime (started 0 0) = 0
   \<and> frame_dt 16 (started 0 0) = 1 / 60
   \<and> targetTime (loop (page_env 2000 0) 16 (started 0 0)) = 7
   \<and> smoothTime (loop (page_env 2000 0) 16 (started 0 0)) = 7 * (1 - exp (- 11 / 60))
   \<and> 4 < \<bar>smoothTime (loop (page_env 2000 0) 16 (started 0 0)) - 5.53\<bar>"
proof -
  have i: "initialized (started 0 0)" and z: "smoothTime (started 0 0) = 0"
    and d: "frame_dt 16 (started 0 0) = 1 / 60"
    by (simp_all add: started_rest frame_dt_def)
  define x :: real where "x = exp (- 11 / 60)"
  have b: "8324 / 10000 < x" "x < 8335 / 10000"
    using decay_60_bounds by (simp_all add: x_def)
  have v: "smoothTime (loop (page_env 2000 0) 16 (started 0 0)) = 7 * (1 - x)"
    using first_step_value(2) [OF i z d page_end_progress [of 0]] by (simp add: x_def)
  have f: "4 < \<bar>7 * (1 - x) - 553 / 100\<bar>" using b by (simp add: abs_if)
  have "targetTime (started 0 0) = 0" by (simp add: started_rest)
  then show ?thesis
    using first_step_value(1) [OF i z d page_end_progress [of 0]] z d v f
    by (simp add: x_def)
qed

section \<open>Seek suppression\<close>

text \<open>
  Claim C5, as amended. On an initialized synchronizer, with at least the minimum seek
  interval elapsed since the last accepted seek: a call whose clamped time differs from
  the last requested time by at most half the minimum time step, the bound included, is
  suppressed and changes nothing; a call that differs by more, from the last requested
  time and from the media's current position, writes the media position.
\<close>

theorem seekToTime_dead_zone:
  assumes "initialized s" and "minSeekInterval \<le> nowMs - lastSeekAt s"
  shows "(\<bar>lastRequestedTime s - nextTime e time\<bar> \<le> MIN_TIME_STEP * 0.5 \<longrightarrow>
            seekToTime e time nowMs s = s)
       \<and> (MIN_TIME_STEP * 0.5 < \<bar>lastRequestedTime s - nextTime e time\<bar>
            \<and> MIN_TIME_STEP * 0.5 < \<bar>video_currentTime e - nextTime e time\<bar> \<longrightarrow>
            effects (seekToTime e time nowMs s)
              = effects s @ [SeekWrite nowMs (nextTime e time)])"
  using assms by (simp add: seekToTime_def)

theorem seekToTime_dead_zone_witness:
  "initialized (started 0 3) \<and> minSeekInterval \<le> 1000 - lastSeekAt (started 0 3)
   \<and> \<bar>lastRequestedTime (started 0 3) - nextTime (page_env 0 3) (1 / 100)\<bar>
       \<le> MIN_TIME_STEP * 0.5
   \<and> seekToTime (page_env 0 3) (1 / 100) 1000 (started 0 3) = started 0 3
   \<and> MIN_TIME_STEP * 0.5 < \<bar>lastRequestedTime (started 0 3) - nextTime (page_env 0 3) 1\<bar>
   \<and> MIN_TIME_STEP * 0.5 < \<bar>video_currentTime (page_env 0 3) - nextTime (page_env 0 3) 1\<bar>
   \<and> effects (seekToTime (page_env 0 3) 1 1000 (started 0 3))
       = effects (started 0 3) @ [SeekWrite 1000 1]"
proof -
  have i: "initialized (started 0 3)"
    and n: "minSeekInterval \<le> 1000 - lastSeekAt (started 0 3)"
    by (simp_all add: started_seeked minSeekInterval_def SEEK_FPS_def)
  have v: "nextTime (page_env 0 3) (1 / 100) = 1 / 100" "nextTime (page_env 0 3) 1 = 1"
    by (simp_all add: nextTime_def page_env_def clamp_def FREEZE_TIME_def)
  have c: "video_currentTime (page_env 0 3) = 3" "lastRequestedTime (started 0 3) = 0"
    by (simp_all add: page_env_def started_seeked)
  show ?thesis
    using seekToTime_dead_zone [OF i n, where e = "page_env 0 3" and time = "1 / 100"]
      seekToTime_dead_zone [OF i n, where e = "page_env 0 3" and time = 1] i n
    by (simp add: v c MIN_TIME_STEP_def)
qed

text \<open>
  The claim's last clause fails: a request that differs from the last requested time by
  exactly half the minimum time step is suppressed, and by this rule, since the throttle
  interval has elapsed and the media position is far from the requested time.
\<close>

theorem seekToTime_half_step_counterexample:
  "initialized (started 0 3)
   \<and> \<bar>lastRequestedTime (started 0 3) - nextTime (page_env 0 3) (1 / 90)\<bar>
       = MIN_TIME_STEP * 0.5
   \<and> minSeekInterval \<le> 1000 - lastSeekAt (started 0 3)
   \<and> MIN_TIME_STEP * 0.5 < \<bar>video_currentTime (page_env 0 3) - nextTime (page_env 0 3) (1 / 90)\<bar>
   \<and> seekToTime (page_env 0 3) (1 / 90) 1000 (started 0 3) = started 0 3"
  by (simp add: started_seeked seekToTime_def nextTime_def page_env_def clamp_def
      FREEZE_TIME_def MIN_TIME_STEP_def minSeekInterval_def SEEK_FPS_def)

text \<open>
  Claim C9. A call of \<open>seekToTime\<close> either passes every check, and then records the
  timestamp and the requested time and writes the media position, or returns the state it
  was given, so that a suppressed call moves neither the throttle window nor the last
  requested time nor the smoothed time.
\<close>

theorem seekToTime_atomic:
  "seekToTime e time nowMs s =
     (if initialized s \<and> minSeekInterval \<le> nowMs - lastSeekAt s
         \<and> MIN_TIME_STEP * 0.5 < \<bar>lastRequestedTime s - nextTime e time\<bar>
         \<and> MIN_TIME_STEP * 0.5 < \<bar>video_currentTime e - nextTime e time\<bar>
      then s\<lparr>lastSeekAt := nowMs, lastRequestedTime := nextTime e time,
             effects := effects s @ [SeekWrite nowMs (nextTime e time)]\<rparr>
      else s)"
  by (simp add: seekToTime_def not_less not_le)

theorem seekToTime_atomic_witness:
  "seekToTime (page_env 0 3) 5 1000 (started 0 3)
     = (started 0 3)\<lparr>lastSeekAt := 1000, lastRequestedTime := 5,
                      effects := effects (started 0 3) @ [SeekWrite 1000 5]\<rparr>
   \<and> seekToTime (page_env 0 3) 5 105 (started 0 3) = started 0 3
   \<and> lastSeekAt (seekToTime (page_env 0 3) 5 105 (started 0 3)) = 100"
proof -
  have v: "nextTime (page_env 0 3) 5 = 5"
    by (simp add: nextTime_def page_env_def clamp_def FREEZE_TIME_def)
  have c: "video_currentTime (page_env 0 3) = 3" "lastRequestedTime (started 0 3) = 0"
    "lastSeekAt (started 0 3) = 100" "initialized (started 0 3)"
    by (simp_all add: page_env_def started_seeked)
  show ?thesis
    using seekToTime_atomic [where e = "page_env 0 3" and time = 5 and nowMs = 1000 and s = "started 0 3"]
      seekToTime_atomic [where e = "page_env 0 3" and time = 5 and nowMs = 105 and s = "started 0 3"]
    by (simp add: v c MIN_TIME_STEP_def minSeekInterval_def SEEK_FPS_def)
qed

section \<open>Invariants of the running synchronizer\<close>

text \<open>
  Claim C3. The smoothed time starts at 0, is set to the clamped target by \<open>init\<close>, and
  stays between 0 and \<open>FREEZE_TIME\<close> after any sequence of events. The animation-frame
  scheduler hands \<open>loop\<close> timestamps that never decrease; \<open>frames_in_order\<close> says so of
  the event sequence. The target is clamped to the interval and, the time delta being
  non-negative, each step interpolates between the old smoothed time and the target.
\<close>

theorem smoothTime_bounded:
  "frames_in_order evs boot \<Longrightarrow>
   0 \<le> smoothTime (run evs boot) \<and> smoothTime (run evs boot) \<le> FREEZE_TIME"
  using run_in_range [OF boot_in_range, of evs] by (simp add: in_range_def)


theorem smoothTime_bounded_witness:
  "frames_in_order [(page_env 0 0, LoadedData), (page_env 0 0, PlaySettled),
       (page_env 2000 0, Frame 16), (page_env 2000 0, Frame 33)] boot
   \<and> 0 \<le> smoothTime (run [(page_env 0 0, LoadedData), (page_env 0 0, PlaySettled),
       (page_env 2000 0, Frame 16), (page_env 2000 0, Frame 33)] boot)
   \<and> smoothTime (run [(page_env 0 0, LoadedData), (page_env 0 0, PlaySettled),
       (page_env 2000 0, Frame 16), (page_env 2000 0, Frame 33)] boot) \<le> FREEZE_TIME"
proof -
  have i: "initialized (started 0 0)" "rafPending (started 0 0)" "lastTick (started 0 0) = 0"
    by (simp_all add: started_rest)
  have f: "frames_in_order [(page_env 0 0, LoadedData), (page_env 0 0, PlaySettled),
       (page_env 2000 0, Frame 16), (page_env 2000 0, Frame 33)] boot"
    by (simp add: started_unfold i loop_lastTick del: handle.simps(1,2))
  show ?thesis using smoothTime_bounded [OF f] f by blast
qed


text \<open>
  Claim C4. If a call of \<open>seekToTime\<close> is forwarded, then of the calls that follow it with
  timestamps less than \<open>1000 / SEEK_FPS\<close> ms after it none is forwarded: the log of
  position writes grows by that first call only. And over any sequence of events from
  start-up, successive position writes are at least \<open>1000 / SEEK_FPS\<close> ms apart.
\<close>

theorem seek_throttle:
  "(effects (seekToTime e time nowMs s) \<noteq> effects s
      \<and> (\<forall>c \<in> set cs. snd (snd c) - nowMs < minSeekInterval)
      \<longrightarrow> effects (run_seeks cs (seekToTime e time nowMs s))
            = effects s @ [SeekWrite nowMs (nextTime e time)])
   \<and> spaced (seek_stamps (effects (run evs boot)))"
proof -
  have b: "spaced (seek_stamps (effects (run evs boot)))"
    using run_log_ok [OF boot_log_ok, of evs] by (simp add: seek_log_ok_def)
  have a: "effects (run_seeks cs (seekToTime e time nowMs s))
            = effects s @ [SeekWrite nowMs (nextTime e time)]"
    if acc: "effects (seekToTime e time nowMs s) \<noteq> effects s"
      and thr: "\<forall>c \<in> set cs. snd (snd c) - nowMs < minSeekInterval"
  proof -
    have s1: "seekToTime e time nowMs s =
        s\<lparr>lastSeekAt := nowMs, lastRequestedTime := nextTime e time,
          effects := effects s @ [SeekWrite nowMs (nextTime e time)]\<rparr>"
      using acc by (simp add: seekToTime_def split: if_splits)
    have "lastSeekAt (seekToTime e time nowMs s) = nowMs" by (simp add: s1)
    then have "run_seeks cs (seekToTime e time nowMs s) = seekToTime e time nowMs s"
      using thr by (intro run_seeks_throttled) simp
    then show ?thesis by (simp add: s1)
  qed
  show ?thesis using a b by blast
qed


theorem seek_throttle_witness:
  "effects (seekToTime (page_env 0 3) 5 1000 (started 0 3)) \<noteq> effects (started 0 3)
   \<and> 1005 - 1000 < minSeekInterval \<and> 1013 - 1000 < minSeekInterval
   \<and> effects (run_seeks [(page_env 0 3, 6, 1005), (page_env 0 3, 2, 1013)]
               (seekToTime (page_env 0 3) 5 1000 (started 0 3)))
       = [LoadMedia, Redraw, SeekWrite 100 0, SeekWrite 1000 5]
   \<and> spaced (seek_stamps (effects (run [(page_env 0 3, LoadedData),
         (page_env 0 3, PlaySettled), (page_env 2000 3, Frame 116)] boot)))"
proof -
  have v: "nextTime (page_env 0 3) 5 = 5"
    by (simp add: nextTime_def page_env_def clamp_def FREEZE_TIME_def)
  have c: "video_currentTime (page_env 0 3) = 3"
    by (simp add: page_env_def)
  have a: "effects (seekToTime (page_env 0 3) 5 1000 (started 0 3)) \<noteq> effects (started 0 3)"
    by (simp add: seekToTime_def v c started_seeked MIN_TIME_STEP_def
        minSeekInterval_def SEEK_FPS_def)
  have t: "1005 - 1000 < minSeekInterval" "1013 - 1000 < minSeekInterval"
    by (simp_all add: minSeekInterval_def SEEK_FPS_def)
  show ?thesis
    using seek_throttle [where e = "page_env 0 3" and time = 5 and nowMs = 1000
        and s = "started 0 3" and cs = "[(page_env 0 3, 6, 1005), (page_env 0 3, 2, 1013)]"
        and evs = "[(page_env 0 3, LoadedData), (page_env 0 3, PlaySettled),
                    (page_env 2000 3, Frame 116)]"] a t
    by (simp add: v started_seeked)
qed

section \<open>Skipping the intro\<close>

text \<open>
  Claim C8, as amended. When the skip-intro parameter is set, \<open>init\<close> (which runs on the
  media's \<open>loadeddata\<close> notification, the load having been requested at start-up) sets the
  ready flag, and after any further events the ready flag is still set, no animation frame
  is pending, so the loop never runs, and no media position has ever been written.
  Redraws are not excluded: the resize and media listeners still paint.
\<close>

theorem skip_intro_idle:
  assumes "skipIntro e" and "\<forall>x \<in> set pre. snd x \<noteq> LoadedData"
  shows "siteReady (run (pre @ (e, LoadedData) # post) boot)
       \<and> \<not> rafPending (run (pre @ (e, LoadedData) # post) boot)
       \<and> (\<forall>t v. SeekWrite t v \<notin> set (effects (run (pre @ (e, LoadedData) # post) boot)))
       \<and> LoadMedia \<in> set (effects (run (pre @ (e, LoadedData) # post) boot))"
proof -
  have "before_load (run pre boot)"
    using boot_before_load assms(2) by (rule before_load_run)
  then have "skipped (handle e LoadedData (run pre boot))"
    using assms(1) by (rule skip_init)
  then have "skipped (run post (handle e LoadedData (run pre boot)))"
    by (rule skipped_run)
  then show ?thesis by (simp add: run_append skipped_def no_seek_def)
qed


theorem skip_intro_idle_witness:
  "skipIntro ((page_env 0 0)\<lparr>skipIntro := True\<rparr>)
   \<and> Resize \<noteq> LoadedData \<and> Frame 5 \<noteq> LoadedData
   \<and> siteReady (run ([(page_env 0 0, Resize), (page_env 0 0, Frame 5)]
         @ ((page_env 0 0)\<lparr>skipIntro := True\<rparr>, LoadedData)
         # [(page_env 900 0, Frame 16), (page_env 900 0, PlaySettled),
            (page_env 900 0, Resize), (page_env 900 0, Frame 33)]) boot)
   \<and> \<not> rafPending (run ([(page_env 0 0, Resize), (page_env 0 0, Frame 5)]
         @ ((page_env 0 0)\<lparr>skipIntro := True\<rparr>, LoadedData)
         # [(page_env 900 0, Frame 16), (page_env 900 0, PlaySettled),
            (page_env 900 0, Resize), (page_env 900 0, Frame 33)]) boot)
   \<and> SeekWrite 16 0 \<notin> set (effects (run ([(page_env 0 0, Resize), (page_env 0 0, Frame 5)]
         @ ((page_env 0 0)\<lparr>skipIntro := True\<rparr>, LoadedData)
         # [(page_env 900 0, Frame 16), (page_env 900 0, PlaySettled),
            (page_env 900 0, Resize), (page_env 900 0, Frame 33)]) boot))"
proof -
  have k: "skipIntro ((page_env 0 0)\<lparr>skipIntro := True\<rparr>)" by simp
  have p: "\<forall>x \<in> set [(page_env 0 0, Resize), (page_env 0 0, Frame 5)]. snd x \<noteq> LoadedData"
    by simp
  show ?thesis
    using skip_intro_idle [OF k p,
        where post = "[(page_env 900 0, Frame 16), (page_env 900 0, PlaySettled),
            (page_env 900 0, Resize), (page_env 900 0, Frame 33)]"] k
    by blast
qed

text \<open>
  The claim as stated fails on the redraw: with the intro skipped, a resize of the window
  after \<open>init\<close> still runs \<open>resizeCanvas\<close>, whose \<open>drawFrame\<close> paints the decoded frame.
\<close>

theorem skip_intro_redraw_counterexample:
  "skipIntro ((page_env 0 0)\<lparr>skipIntro := True\<rparr>)
   \<and> effects (run [((page_env 0 0)\<lparr>skipIntro := True\<rparr>, LoadedData)] boot) = [LoadMedia]
   \<and> siteReady (run [((page_env 0 0)\<lparr>skipIntro := True\<rparr>, LoadedData)] boot)
   \<and> effects (run [((page_env 0 0)\<lparr>skipIntro := True\<rparr>, LoadedData),
                    ((page_env 0 0)\<lparr>skipIntro := True\<rparr>, Resize)] boot)
       = [LoadMedia, Redraw]"
  by (simp add: page_env_def boot_def init_begin_def setReadyState_def resizeCanvas_def
      drawFrame_def Let_def)


section \<open>Scroll progress\<close>

text \<open>
  Claim C6, as amended. \<open>getPageProgress\<close> always returns a finite number between 0 and
  1; with the container and the viewport fixed it is non-decreasing in the scroll offset
  (the negated top of the container's bounding box); it is 0 for an offset at or before
  the start of the span, and 1 for an offset at or past the end of the span provided the
  span is positive.
\<close>

theorem getPageProgress_monotone_clamped:
  "\<exists>p q. getPageProgress (e\<lparr>rect_top := - x\<rparr>) = JNum p
        \<and> getPageProgress (e\<lparr>rect_top := - y\<rparr>) = JNum q
        \<and> 0 \<le> p \<and> p \<le> 1
        \<and> (x \<le> y \<longrightarrow> p \<le> q)
        \<and> (x \<le> 0 \<longrightarrow> p = 0)
        \<and> (0 < offsetHeight e - innerHeight e \<and> offsetHeight e - innerHeight e \<le> x
             \<longrightarrow> p = 1)"
  by (auto simp add: getPageProgress_value divide_right_mono)

theorem getPageProgress_monotone_clamped_witness:
  "(\<exists>p q. getPageProgress ((page_env 0 0)\<lparr>rect_top := - 500\<rparr>) = JNum p
         \<and> getPageProgress ((page_env 0 0)\<lparr>rect_top := - 1500\<rparr>) = JNum q
         \<and> (500 :: real) \<le> 1500 \<and> p \<le> q)
   \<and> (- 40 :: real) \<le> 0
   \<and> getPageProgress ((page_env 0 0)\<lparr>rect_top := - (- 40)\<rparr>) = JNum 0
   \<and> 0 < offsetHeight (page_env 0 0) - innerHeight (page_env 0 0)
   \<and> offsetHeight (page_env 0 0) - innerHeight (page_env 0 0) \<le> 2600
   \<and> getPageProgress ((page_env 0 0)\<lparr>rect_top := - 2600\<rparr>) = JNum 1"
proof -
  have g: "offsetHeight (page_env 0 0) - innerHeight (page_env 0 0) = 2000"
    by (simp add: page_env_def)
  show ?thesis
    using getPageProgress_monotone_clamped [where e = "page_env 0 0" and x = 500 and y = 1500]
      getPageProgress_monotone_clamped [where e = "page_env 0 0" and x = "- 40" and y = 0]
      getPageProgress_monotone_clamped [where e = "page_env 0 0" and x = 2600 and y = 2600]
    by (auto simp add: g)
qed

text \<open>
  The claim as stated fails on a span that is not positive: on a container exactly as tall
  as the viewport, an offset of 5 lies past the span and the result is 0, not 1.
\<close>

theorem getPageProgress_zero_span_counterexample:
  "offsetHeight ((page_env 5 0)\<lparr>offsetHeight := 1000\<rparr>)
     - innerHeight ((page_env 5 0)\<lparr>offsetHeight := 1000\<rparr>) = 0
   \<and> - rect_top ((page_env 5 0)\<lparr>offsetHeight := 1000\<rparr>) = 5
   \<and> getPageProgress ((page_env 5 0)\<lparr>offsetHeight := 1000\<rparr>) = JNum 0
   \<and> getPageProgress ((page_env 5 0)\<lparr>offsetHeight := 1000\<rparr>) \<noteq> JNum 1"
  by (simp add: getPageProgress_value page_env_def)

text \<open>
  Claim C7. When the container is not taller than the viewport (a span of 0 or less),
  \<open>getPageProgress\<close> returns the number 0: the division is not reached, so the result is
  neither \<open>NaN\<close> nor infinite.
\<close>

theorem getPageProgress_nonpositive_span:
  "offsetHeight e - innerHeight e \<le> 0 \<Longrightarrow> getPageProgress e = JNum 0"
  by (simp add: getPageProgress_def Let_def)

theorem getPageProgress_nonpositive_span_witness:
  "offsetHeight ((page_env 300 0)\<lparr>offsetHeight := 1000\<rparr>)
     - innerHeight ((page_env 300 0)\<lparr>offsetHeight := 1000\<rparr>) \<le> 0
   \<and> getPageProgress ((page_env 300 0)\<lparr>offsetHeight := 1000\<rparr>) = JNum 0
   \<and> js_div 0 0 = NaN"
proof -
  have h: "offsetHeight ((page_env 300 0)\<lparr>offsetHeight := 1000\<rparr>)
     - innerHeight ((page_env 300 0)\<lparr>offsetHeight := 1000\<rparr>) \<le> 0"
    by (simp add: page_env_def)
  show ?thesis
    using getPageProgress_nonpositive_span [OF h] h by (simp add: js_div_def)
qed

section \<open>The moon phase\<close>

text \<open>
  Claim C10. For every date, given by its time value in milliseconds and so also for
  dates before the reference new moon, \<open>moonPhase\<close> returns a phase that is at least 0 and
  less than the synodic month 29.530588853, and an illumination between 0 and 1.
\<close>

theorem moonPhase_range:
  "0 \<le> phase (moonPhase date) \<and> phase (moonPhase date) < synodicMonth
   \<and> synodicMonth = 29.530588853
   \<and> 0 \<le> illumination (moonPhase date) \<and> illumination (moonPhase date) \<le> 1"
proof -
  define daysSince :: real where
    "daysSince = (of_int date - of_int knownNewMoon) / 1000 / 60 / 60 / 24"
  define ph where "ph = js_rem (js_rem daysSince synodicMonth + synodicMonth) synodicMonth"
  have "0 \<le> js_rem daysSince synodicMonth + synodicMonth"
    using js_rem_lower [OF synodicMonth_pos, of daysSince] by simp
  then have r: "0 \<le> ph \<and> ph < synodicMonth"
    unfolding ph_def by (rule js_rem_range [OF synodicMonth_pos])
  have p: "phase (moonPhase date) = ph"
    by (simp add: moonPhase_def Let_def ph_def daysSince_def)
  have i: "illumination (moonPhase date) = (1 - cos ((2 * pi * ph) / synodicMonth)) / 2"
    by (simp add: moonPhase_def Let_def ph_def daysSince_def)
  have c: "- 1 \<le> cos ((2 * pi * ph) / synodicMonth)" "cos ((2 * pi * ph) / synodicMonth) \<le> 1"
    by (rule cos_ge_minus_one, rule cos_le_one)
  have m: "synodicMonth = 29.530588853" by (simp add: synodicMonth_def)
  show ?thesis using r c m unfolding p i by simp
qed

end
